theory Spec2Isabelle
  imports Main
begin

text \<open>
  The handlers of \<open>main.py\<close>: \<open>search_youtube\<close>, \<open>play\<close>, \<open>button_callback\<close>,
  \<open>download_audio\<close> and \<open>handle_message\<close>.  The chat platform, the search, the
  downloader and the file system are outside the program; they appear as an environment
  that decides the outcome of every outbound call, and as a trace of the calls made.
\<close>

section \<open>Python string primitives used by the handlers\<close>

text \<open>
  A Python \<open>str\<close> is modelled as a \<open>string\<close>.  The handlers only compare, join, cut and
  search with ASCII patterns (\<open>"download_"\<close>, \<open>".mp3"\<close>, \<open>"/"\<close>, \<open>"."\<close>, \<open>" "\<close>), so the string
  functions below are written over lists of any element type.  The few non-ASCII symbols of
  the fixed message texts are written as their UTF-8 bytes.
\<close>

definition startswith :: "'a list \<Rightarrow> 'a list \<Rightarrow> bool" where
  \<comment> \<open>\<open>s.startswith(p)\<close>\<close>
  "startswith s p = (take (length p) s = p)"

fun join :: "'a list \<Rightarrow> 'a list list \<Rightarrow> 'a list" where
  \<comment> \<open>\<open>sep.join(xs)\<close>\<close>
  "join sep [] = []"
| "join sep [x] = x"
| "join sep (x # y # ys) = x @ sep @ join sep (y # ys)"

function str_replace :: "'a list \<Rightarrow> 'a list \<Rightarrow> 'a list \<Rightarrow> 'a list" where
  \<comment> \<open>\<open>s.replace(old, new)\<close>: every non-overlapping occurrence of \<open>old\<close>, scanning from the
      left; with an empty \<open>old\<close> Python puts \<open>new\<close> before every character and at the end.\<close>
  "str_replace old new [] = (if old = [] then new else [])"
| "str_replace old new (c # cs) =
     (if old = [] then new @ c # str_replace old new cs
      else if startswith (c # cs) old
        then new @ str_replace old new (drop (length old) (c # cs))
      else c # str_replace old new cs)"
  by pat_completeness auto
termination
  by (relation "measure (\<lambda>(old, new, s). length s)") auto

fun str_contains :: "'a list \<Rightarrow> 'a list \<Rightarrow> bool" where
  \<comment> \<open>\<open>p in s\<close>: \<open>p\<close> occurs in \<open>s\<close> at some position\<close>
  "str_contains [] p = (p = [])"
| "str_contains (c # cs) p = (startswith (c # cs) p \<or> str_contains cs p)"

definition rsplit1_head :: "'a \<Rightarrow> 'a list \<Rightarrow> 'a list" where
  \<comment> \<open>\<open>s.rsplit(sep, 1)[0]\<close> for a one-character \<open>sep\<close>: the text before the last \<open>sep\<close>,
      or all of \<open>s\<close> when \<open>sep\<close> does not occur.\<close>
  "rsplit1_head sep s =
     (if sep \<in> set s then rev (tl (dropWhile (\<lambda>c. c \<noteq> sep) (rev s))) else s)"

definition basename :: "string \<Rightarrow> string" where
  \<comment> \<open>\<open>os.path.basename(p)\<close> (posixpath): \<open>p[p.rfind('/') + 1:]\<close>\<close>
  "basename p = rev (takeWhile (\<lambda>c. c \<noteq> CHR ''/'') (rev p))"

definition digit_char :: "nat \<Rightarrow> char" where
  "digit_char n = ''0123456789'' ! n"

function str_nat :: "nat \<Rightarrow> string" where
  \<comment> \<open>decimal digits of a natural number, most significant first\<close>
  "str_nat n = (if n < 10 then [digit_char n] else str_nat (n div 10) @ [digit_char (n mod 10)])"
  by pat_completeness auto
termination
  by (relation "measure (\<lambda>n. n)") auto

declare str_nat.simps [simp del]

definition str_int :: "int \<Rightarrow> string" where
  \<comment> \<open>\<open>str(i)\<close>, which an f-string field \<open>{i}\<close> inserts\<close>
  "str_int i = (if i < 0 then CHR ''-'' # str_nat (nat (- i)) else str_nat (nat i))"

definition zfill :: "nat \<Rightarrow> string \<Rightarrow> string" where
  "zfill w s = replicate (w - length s) (CHR ''0'') @ s"

definition format_02d :: "int \<Rightarrow> string" where
  \<comment> \<open>\<open>format(i, '02d')\<close>: zero padding after the sign up to a total width of 2\<close>
  "format_02d i =
     (if i < 0 then CHR ''-'' # zfill 1 (str_nat (nat (- i))) else zfill 2 (str_nat (nat i)))"


section \<open>The world the handlers act on\<close>

text \<open>
  Every outbound call of a handler is recorded, in order, in a trace; the staging directory
  is a set of existing paths.  A call is recorded when it is made, whether or not it then
  raises.  Exceptions are instances of Python's \<open>Exception\<close>, the class both \<open>except\<close>
  clauses of the source name.
\<close>

datatype exn = Exception string

record button =
  label :: string
  callback_data :: string

datatype event =
    Answer                                \<comment> \<open>\<open>query.answer()\<close>\<close>
  | EditMessageText string                \<comment> \<open>\<open>query.edit_message_text(t)\<close>, \<open>searching_msg.edit_text(t)\<close>\<close>
  | ReplyText string                      \<comment> \<open>\<open>update.message.reply_text(t)\<close>\<close>
  | ReplyMarkup string "button list list" \<comment> \<open>\<open>update.message.reply_text(t, reply_markup=...)\<close>\<close>
  | DeleteMessage                         \<comment> \<open>\<open>searching_msg.delete()\<close>\<close>
  | SearchCall string                     \<comment> \<open>\<open>ydl.extract_info(q, download=False)\<close>\<close>
  | MakeDirs string                       \<comment> \<open>\<open>os.makedirs(d, exist_ok=True)\<close>\<close>
  | DownloadCall string                   \<comment> \<open>\<open>ydl.extract_info(url, download=True)\<close>\<close>
  | OpenFile string                       \<comment> \<open>\<open>open(p, 'rb')\<close>\<close>
  | SendAudio string string string        \<comment> \<open>\<open>context.bot.send_audio\<close>: file, title, performer\<close>
  | RemoveFile string                     \<comment> \<open>\<open>os.remove(p)\<close>\<close>
  | LogError string                       \<comment> \<open>\<open>logger.error(t)\<close>\<close>

text \<open>
  The keys of an extractor result that the bot reads; \<open>None\<close> is an absent key.  A duration
  that is present is an integer number of seconds.
\<close>

record yt_info =
  title :: "string option"
  duration :: "int option"
  webpage_url :: "string option"
  thumbnail :: "string option"

record search_result =
  res_title :: string
  res_duration :: int
  res_url :: string
  res_thumbnail :: string

record world =
  trace :: "event list"
  files :: "string set"

text \<open>
  The environment fixes what the external parties do: whether an outbound call raises, what
  the search returns, what the download returns and which files it leaves, and the file
  name the extractor derives from the output template.
\<close>

record env =
  raises :: "event \<Rightarrow> exn option"
  search_entries :: "string \<Rightarrow> exn + yt_info list"
  download_extract :: "string \<Rightarrow> string set \<Rightarrow> (exn + yt_info) \<times> string set"
  prepare_filename :: "yt_info \<Rightarrow> exn + string"

type_synonym 'a io = "world \<Rightarrow> (exn + 'a) \<times> world"

definition return :: "'a \<Rightarrow> 'a io" where
  "return x = (\<lambda>w. (Inr x, w))"

definition raise :: "exn \<Rightarrow> 'a io" where
  "raise e = (\<lambda>w. (Inl e, w))"

definition bind :: "'a io \<Rightarrow> ('a \<Rightarrow> 'b io) \<Rightarrow> 'b io" where
  \<comment> \<open>sequencing: an exception of the first statement skips the rest\<close>
  "bind m f = (\<lambda>w. case m w of (Inl e, w') \<Rightarrow> (Inl e, w') | (Inr x, w') \<Rightarrow> f x w')"

definition try_except :: "'a io \<Rightarrow> (exn \<Rightarrow> 'a io) \<Rightarrow> 'a io" where
  \<comment> \<open>\<open>try: m  except Exception as e: h e\<close>\<close>
  "try_except m h = (\<lambda>w. case m w of (Inl e, w') \<Rightarrow> h e w' | (Inr x, w') \<Rightarrow> (Inr x, w'))"

definition emit :: "event \<Rightarrow> unit io" where
  "emit ev = (\<lambda>w. (Inr (), w\<lparr>trace := trace w @ [ev]\<rparr>))"

definition call :: "env \<Rightarrow> event \<Rightarrow> unit io" where
  \<comment> \<open>an outbound call: recorded, then it returns or raises as the environment says\<close>
  "call E ev = bind (emit ev) (\<lambda>_. case raises E ev of None \<Rightarrow> return () | Some e \<Rightarrow> raise e)"

definition logger_error :: "string \<Rightarrow> unit io" where
  "logger_error t = emit (LogError t)"

definition str_exn :: "exn \<Rightarrow> string" where
  "str_exn e = (case e of Exception m \<Rightarrow> m)"

definition makedirs :: "env \<Rightarrow> string \<Rightarrow> unit io" where
  \<comment> \<open>\<open>os.makedirs(d, exist_ok=True)\<close>\<close>
  "makedirs E d = bind (call E (MakeDirs d)) (\<lambda>_ w. (Inr (), w\<lparr>files := insert d (files w)\<rparr>))"

definition path_exists :: "string \<Rightarrow> bool io" where
  \<comment> \<open>\<open>os.path.exists(p)\<close>\<close>
  "path_exists p = (\<lambda>w. (Inr (p \<in> files w), w))"

definition open_rb :: "env \<Rightarrow> string \<Rightarrow> unit io" where
  \<comment> \<open>\<open>open(p, 'rb')\<close>: FileNotFoundError when nothing is at \<open>p\<close>\<close>
  "open_rb E p =
     bind (emit (OpenFile p)) (\<lambda>_ w.
       if p \<notin> files w then (Inl (Exception ''FileNotFoundError''), w)
       else case raises E (OpenFile p) of None \<Rightarrow> (Inr (), w) | Some e \<Rightarrow> (Inl e, w))"

definition os_remove :: "env \<Rightarrow> string \<Rightarrow> unit io" where
  \<comment> \<open>\<open>os.remove(p)\<close>: FileNotFoundError when nothing is at \<open>p\<close>\<close>
  "os_remove E p =
     bind (emit (RemoveFile p)) (\<lambda>_ w.
       if p \<notin> files w then (Inl (Exception ''FileNotFoundError''), w)
       else case raises E (RemoveFile p) of
              None \<Rightarrow> (Inr (), w\<lparr>files := files w - {p}\<rparr>)
            | Some e \<Rightarrow> (Inl e, w))"


section \<open>Message texts\<close>

definition notes_sym :: string where      \<comment> \<open>U+1F3B5\<close>
  "notes_sym = [CHR 0xF0, CHR 0x9F, CHR 0x8E, CHR 0xB5]"

definition cross_sym :: string where      \<comment> \<open>U+274C\<close>
  "cross_sym = [CHR 0xE2, CHR 0x9D, CHR 0x8C]"

definition glass_sym :: string where      \<comment> \<open>U+1F50D\<close>
  "glass_sym = [CHR 0xF0, CHR 0x9F, CHR 0x94, CHR 0x8D]"

definition watch_sym :: string where      \<comment> \<open>U+23F1 U+FE0F\<close>
  "watch_sym = [CHR 0xE2, CHR 0x8F, CHR 0xB1, CHR 0xEF, CHR 0xB8, CHR 0x8F]"

definition arrow_sym :: string where      \<comment> \<open>U+2B07 U+FE0F\<close>
  "arrow_sym = [CHR 0xE2, CHR 0xAC, CHR 0x87, CHR 0xEF, CHR 0xB8, CHR 0x8F]"

definition check_sym :: string where      \<comment> \<open>U+2705\<close>
  "check_sym = [CHR 0xE2, CHR 0x9C, CHR 0x85]"

definition prompt_msg :: string where
  "prompt_msg = ''Please provide a song name!\<newline>Example: /play never gonna give you up''"

definition searching_msg_text :: "string \<Rightarrow> string" where
  "searching_msg_text query = glass_sym @ '' Searching for: '' @ query"

definition no_results_msg :: string where
  "no_results_msg = cross_sym @ '' No results found. Try another search!''"

definition found_msg :: "string \<Rightarrow> string \<Rightarrow> string" where
  "found_msg t duration_str =
     notes_sym @ '' Found: '' @ t @ ''\<newline>'' @
     watch_sym @ '' Duration: '' @ duration_str @ ''\<newline>\<newline>'' @
     ''Click below to download:''"

definition cancelled_msg :: string where
  "cancelled_msg = cross_sym @ '' Operation cancelled.''"

definition downloading_msg :: string where
  "downloading_msg = arrow_sym @ '' Downloading audio... Please wait.''"

definition sent_msg :: string where
  "sent_msg = check_sym @ '' Audio sent successfully!''"

definition failed_msg :: string where
  "failed_msg = cross_sym @ '' Failed to download audio. Please try again.''"

definition error_msg :: string where
  "error_msg = cross_sym @ '' An error occurred while downloading.''"


section \<open>The handlers\<close>

definition key_error :: "string \<Rightarrow> exn" where
  \<comment> \<open>\<open>KeyError(k)\<close> for a string key: its text is the key between single quotes\<close>
  "key_error k = Exception (CHR 0x27 # k @ [CHR 0x27])"

definition search_youtube :: "env \<Rightarrow> string \<Rightarrow> search_result option io" where
  "search_youtube E query =
     try_except
       (bind (emit (SearchCall (''ytsearch:'' @ query))) (\<lambda>_.
          case search_entries E (''ytsearch:'' @ query) of
            Inl e \<Rightarrow> raise e
          | Inr [] \<Rightarrow> raise (Exception ''list index out of range'')
          | Inr (info # _) \<Rightarrow>
              (case title info of
                 None \<Rightarrow> raise (key_error ''title'')
               | Some t \<Rightarrow>
                   (case webpage_url info of
                      None \<Rightarrow> raise (key_error ''webpage_url'')
                    | Some u \<Rightarrow>
                        return (Some \<lparr>res_title = t,
                                      res_duration = (case duration info of None \<Rightarrow> 0 | Some d \<Rightarrow> d),
                                      res_url = u,
                                      res_thumbnail = (case thumbnail info of None \<Rightarrow> [] | Some th \<Rightarrow> th)\<rparr>)))))
       (\<lambda>e. bind (logger_error (''Search error: '' @ str_exn e)) (\<lambda>_. return None))"

definition download_payload :: "string \<Rightarrow> string" where
  \<comment> \<open>\<open>f"download_{result['url']}"\<close>\<close>
  "download_payload url = ''download_'' @ url"

definition payload_url :: "string \<Rightarrow> string" where
  \<comment> \<open>\<open>query.data.replace("download_", "")\<close>\<close>
  "payload_url data = str_replace ''download_'' [] data"

definition format_duration :: "int \<Rightarrow> string" where
  "format_duration d =
     (let minutes = d div 60;
          seconds = d mod 60
      in str_int minutes @ '':'' @ format_02d seconds)"

definition keyboard_for :: "string \<Rightarrow> button list list" where
  "keyboard_for url =
     [[\<lparr>label = notes_sym @ '' Download & Send'', callback_data = download_payload url\<rparr>],
      [\<lparr>label = cross_sym @ '' Cancel'', callback_data = ''cancel''\<rparr>]]"

definition play :: "env \<Rightarrow> string list \<Rightarrow> unit io" where
  \<comment> \<open>\<open>args\<close> is \<open>context.args\<close>; a missing or empty list is falsy, as is an empty query\<close>
  "play E args =
     (let query = (if args \<noteq> [] then Some (join '' '' args) else None) in
      case query of
        None \<Rightarrow> call E (ReplyText prompt_msg)
      | Some q \<Rightarrow>
          if q = [] then call E (ReplyText prompt_msg)
          else
            bind (call E (ReplyText (searching_msg_text q))) (\<lambda>_.
            bind (search_youtube E q) (\<lambda>result.
              case result of
                Some r \<Rightarrow>
                  (let keyboard = keyboard_for (res_url r);
                       duration_str = format_duration (res_duration r)
                   in bind (call E DeleteMessage) (\<lambda>_.
                      call E (ReplyMarkup (found_msg (res_title r) duration_str) keyboard)))
              | None \<Rightarrow> call E (EditMessageText no_results_msg))))"

definition ydl_extract_info :: "env \<Rightarrow> string \<Rightarrow> yt_info io" where
  \<comment> \<open>\<open>ydl.extract_info(url, download=True)\<close>: returns or raises, and leaves files behind\<close>
  "ydl_extract_info E url =
     bind (emit (DownloadCall url)) (\<lambda>_ w.
       case download_extract E url (files w) of (r, fs') \<Rightarrow> (r, w\<lparr>files := fs'\<rparr>))"

definition ydl_prepare_filename :: "env \<Rightarrow> yt_info \<Rightarrow> string io" where
  "ydl_prepare_filename E info = (\<lambda>w. (prepare_filename E info, w))"

definition download_audio :: "env \<Rightarrow> string \<Rightarrow> string option io" where
  "download_audio E url =
     bind (makedirs E ''downloads'') (\<lambda>_.
       try_except
         (bind (ydl_extract_info E url) (\<lambda>info.
          bind (ydl_prepare_filename E info) (\<lambda>filename.
            let filename = rsplit1_head (CHR ''.'') filename @ ''.mp3'' in
            bind (path_exists filename) (\<lambda>ex.
              if ex then return (Some filename) else return None))))
         (\<lambda>e. bind (logger_error (''Download error: '' @ str_exn e)) (\<lambda>_. return None)))"

definition audio_title :: "string \<Rightarrow> string" where
  \<comment> \<open>\<open>os.path.basename(audio_file).replace('.mp3', '')\<close>\<close>
  "audio_title audio_file = str_replace ''.mp3'' [] (basename audio_file)"

definition performer :: string where
  "performer = ''Music Bot''"

definition download_and_send :: "env \<Rightarrow> string \<Rightarrow> unit io" where
  \<comment> \<open>the body of the \<open>try\<close> block of \<open>button_callback\<close>.  \<open>if audio_file:\<close> holds for a
      non-empty string.  The \<open>with\<close> block closes the handle on both ways out, which leaves
      the file in place.\<close>
  "download_and_send E url =
     bind (download_audio E url) (\<lambda>audio_file.
       case audio_file of
         None \<Rightarrow> call E (EditMessageText failed_msg)
       | Some f \<Rightarrow>
           if f \<noteq> [] then
             bind (open_rb E f) (\<lambda>_.
             bind (call E (SendAudio f (audio_title f) performer)) (\<lambda>_.
             bind (os_remove E f) (\<lambda>_.
             call E (EditMessageText sent_msg))))
           else call E (EditMessageText failed_msg))"

definition button_callback :: "env \<Rightarrow> string \<Rightarrow> unit io" where
  \<comment> \<open>\<open>data\<close> is \<open>query.data\<close>\<close>
  "button_callback E data =
     bind (call E Answer) (\<lambda>_.
       if data = ''cancel'' then call E (EditMessageText cancelled_msg)
       else if startswith data ''download_'' then
         (let url = payload_url data in
          bind (call E (EditMessageText downloading_msg)) (\<lambda>_.
            try_except
              (download_and_send E url)
              (\<lambda>e. bind (logger_error (''Download error: '' @ str_exn e)) (\<lambda>_.
                    call E (EditMessageText error_msg)))))
       else return ())"

definition handle_message :: "env \<Rightarrow> string \<Rightarrow> unit io" where
  \<comment> \<open>\<open>text\<close> is \<open>update.message.text\<close>; an absent text is falsy like the empty one\<close>
  "handle_message E text =
     (if text \<noteq> [] \<and> \<not> startswith text ''/'' then play E [text] else return ())"

definition world0 :: world where
  "world0 = \<lparr>trace = [], files = {}\<rparr>"


section \<open>Example environments\<close>

definition believer :: yt_info where
  "believer = \<lparr>title = Some ''Believer'', duration = Some 204,
               webpage_url = Some ''https://youtu.be/x'', thumbnail = None\<rparr>"

definition env_ok :: env where
  \<comment> \<open>nothing raises; the search finds one entry; the download stages the converted file\<close>
  "env_ok = \<lparr>raises = (\<lambda>ev. None),
             search_entries = (\<lambda>q. Inr [believer]),
             download_extract = (\<lambda>url fs. (Inr believer, insert ''downloads/Believer.mp3'' fs)),
             prepare_filename = (\<lambda>info. Inr ''downloads/Believer.webm'')\<rparr>"

definition env_send_fails :: env where
  \<comment> \<open>as \<open>env_ok\<close>, but sending the audio raises\<close>
  "env_send_fails = env_ok\<lparr>raises :=
     (\<lambda>ev. case ev of SendAudio f t p \<Rightarrow> Some (Exception ''NetworkError'') | _ \<Rightarrow> None)\<rparr>"

definition env_ack_fails :: env where
  \<comment> \<open>as \<open>env_ok\<close>, but acknowledging the interaction raises\<close>
  "env_ack_fails = env_ok\<lparr>raises :=
     (\<lambda>ev. if ev = Answer then Some (Exception ''NetworkError'') else None)\<rparr>"

definition env_partial :: env where
  \<comment> \<open>as \<open>env_ok\<close>, but the extraction raises after it has written a partial file\<close>
  "env_partial = env_ok\<lparr>download_extract :=
     (\<lambda>url fs. (Inl (Exception ''DownloadError''), insert ''downloads/Believer.webm.part'' fs))\<rparr>"

definition env_dotted :: env where
  \<comment> \<open>as \<open>env_ok\<close>, for a video whose title is \<open>Best.mp3 hits\<close>\<close>
  "env_dotted = env_ok\<lparr>download_extract :=
       (\<lambda>url fs. (Inr believer, insert ''downloads/Best.mp3 hits.mp3'' fs)),
     prepare_filename := (\<lambda>info. Inr ''downloads/Best.mp3 hits.webm'')\<rparr>"

definition env_noname :: env where
  \<comment> \<open>as \<open>env_ok\<close>, but preparing the file name raises\<close>
  "env_noname = env_ok\<lparr>prepare_filename := (\<lambda>info. Inl (Exception ''KeyError''))\<rparr>"

definition env_absent :: env where
  \<comment> \<open>as \<open>env_ok\<close>, but the extraction returns without leaving the expected file\<close>
  "env_absent = env_ok\<lparr>download_extract := (\<lambda>url fs. (Inr believer, fs))\<rparr>"


section \<open>Properties\<close>

lemmas io_defs = return_def raise_def bind_def try_except_def emit_def call_def logger_error_def
  makedirs_def path_exists_def open_rb_def os_remove_def ydl_extract_info_def
  ydl_prepare_filename_def

subsection \<open>Cancelling\<close>

text \<open>
  C8, as amended.  When the payload is the literal \<open>cancel\<close> and the acknowledgement has
  returned, the handler makes exactly one more call, the edit of the message to the
  cancellation notice, and stops: the trace gains the acknowledgement and that edit and
  nothing else, so neither the search nor the download is invoked, and the staged files
  are untouched.  When the acknowledgement raises, the handler is left at once, without
  the edit and again without any search or download.
\<close>

theorem cancel_edits_and_stops:
  "(raises E Answer = None \<longrightarrow>
      button_callback E ''cancel'' w =
        ((case raises E (EditMessageText cancelled_msg) of None \<Rightarrow> Inr () | Some e \<Rightarrow> Inl e),
         w\<lparr>trace := trace w @ [Answer, EditMessageText cancelled_msg]\<rparr>)) \<and>
   (raises E Answer = Some e \<longrightarrow>
      button_callback E ''cancel'' w = (Inl e, w\<lparr>trace := trace w @ [Answer]\<rparr>))"
  by (simp add: button_callback_def io_defs split: option.splits)

theorem cancel_edits_and_stops_witness:
  "raises env_ok Answer = None \<and>
   button_callback env_ok ''cancel'' world0 =
     (Inr (), \<lparr>trace = [Answer, EditMessageText cancelled_msg], files = {}\<rparr>) \<and>
   raises env_ack_fails Answer = Some (Exception ''NetworkError'') \<and>
   button_callback env_ack_fails ''cancel'' world0 =
     (Inl (Exception ''NetworkError''), \<lparr>trace = [Answer], files = {}\<rparr>)"
  using cancel_edits_and_stops [of env_ok world0]
    cancel_edits_and_stops [of env_ack_fails world0 "Exception ''NetworkError''"]
  by (simp add: env_ok_def env_ack_fails_def world0_def)

text \<open>
  C8 as stated fails where the acknowledgement raises: it precedes the test of the payload
  and is outside any \<open>try\<close> block, so the handler is left before the cancellation edit.
\<close>

theorem cancel_without_edit:
  "EditMessageText cancelled_msg \<notin>
     set (trace (snd (button_callback env_ack_fails ''cancel'' world0)))"
  by (simp add: button_callback_def io_defs env_ack_fails_def env_ok_def world0_def)

subsection \<open>Empty queries\<close>

text \<open>
  C3, as amended.  When the argument list is empty or joins to the empty string, \<open>play\<close>
  makes exactly one call, the reply with the prompt for a song name, so the search is not
  invoked; and a plain message with an empty text is not forwarded at all.
\<close>

theorem play_empty_query_prompts:
  "(args = [] \<or> join '' '' args = [] \<longrightarrow>
      trace (snd (play E args w)) = trace w @ [ReplyText prompt_msg] \<and>
      files (snd (play E args w)) = files w) \<and>
   handle_message E [] w = (Inr (), w)"
  by (auto simp add: play_def handle_message_def io_defs split: option.splits)

theorem play_empty_query_prompts_witness:
  "(([]::string list) = [] \<or> join '' '' [] = ([]::string)) \<and>
   trace (snd (play env_ok [] world0)) = [ReplyText prompt_msg] \<and>
   files (snd (play env_ok [] world0)) = {} \<and>
   join '' '' [[]] = ([]::string) \<and>
   trace (snd (play env_ok [[]] world0)) = [ReplyText prompt_msg]"
  using play_empty_query_prompts [of "[]" env_ok world0]
    play_empty_query_prompts [of "[[]]" env_ok world0]
  by (simp add: world0_def)

text \<open>
  C3 as stated fails for a plain message: the text of one blank is not empty, so it is
  forwarded to \<open>play\<close> as the query and the search is invoked with it.
\<close>

theorem whitespace_message_is_searched:
  "SearchCall ''ytsearch: '' \<in> set (trace (snd (handle_message env_ok '' '' world0)))"
  by (simp add: handle_message_def play_def search_youtube_def io_defs env_ok_def world0_def
      startswith_def believer_def)

subsection \<open>Plain messages\<close>

text \<open>
  C9, as amended.  A plain message whose text is not empty and does not begin with \<open>/\<close>
  behaves exactly as \<open>play\<close> called with any non-empty argument list that joins, with
  single blanks, to that text.
\<close>

theorem plain_message_is_play:
  "text \<noteq> [] \<Longrightarrow> \<not> startswith text ''/'' \<Longrightarrow> args \<noteq> [] \<Longrightarrow> join '' '' args = text \<Longrightarrow>
   handle_message E text w = play E args w"
  by (simp add: handle_message_def play_def)

theorem plain_message_is_play_witness:
  "''hello'' \<noteq> [] \<and> \<not> startswith ''hello'' ''/'' \<and> [''hello''] \<noteq> [] \<and>
   join '' '' [''hello''] = ''hello'' \<and>
   handle_message env_ok ''hello'' world0 = play env_ok [''hello''] world0"
  using plain_message_is_play [of "''hello''" "[''hello'']" env_ok world0]
  by (simp add: startswith_def)

text \<open>
  C9 as stated fails for the empty text: it does not begin with \<open>/\<close>, the plain message
  handler ignores it, and \<open>play\<close> with an empty query replies with the prompt.
\<close>

theorem empty_message_not_play:
  "handle_message env_ok [] world0 \<noteq> play env_ok [] world0"
  by (simp add: handle_message_def play_def io_defs env_ok_def world0_def)

subsection \<open>The displayed duration\<close>

lemma digit_char_0: "digit_char 0 = CHR ''0''"
  by (simp add: digit_char_def)

lemma format_02d_seconds:
  assumes "0 \<le> s" "s < 60"
  shows "format_02d s = [digit_char (nat s div 10), digit_char (nat s mod 10)]"
proof (cases "nat s < 10")
  case True
  then have "str_nat (nat s) = [digit_char (nat s)]"
    by (simp add: str_nat.simps)
  with True assms show ?thesis
    by (simp add: format_02d_def zfill_def digit_char_0)
next
  case False
  from assms have "nat s div 10 < 10" by linarith
  then have "str_nat (nat s div 10) = [digit_char (nat s div 10)]"
    by (simp add: str_nat.simps)
  with False have "str_nat (nat s) = [digit_char (nat s div 10), digit_char (nat s mod 10)]"
    by (subst str_nat.simps) simp
  with assms show ?thesis
    by (simp add: format_02d_def zfill_def)
qed

lemma format_duration_nonneg:
  assumes "0 \<le> d"
  shows "format_duration d =
     str_nat (nat (d div 60)) @ '':'' @
     [digit_char (nat (d mod 60) div 10), digit_char (nat (d mod 60) mod 10)]"
proof -
  have "0 \<le> d mod 60" "d mod 60 < 60" by simp_all
  then have "format_02d (d mod 60) = [digit_char (nat (d mod 60) div 10), digit_char (nat (d mod 60) mod 10)]"
    by (rule format_02d_seconds)
  moreover from assms have "0 \<le> d div 60" by simp
  ultimately show ?thesis
    by (simp add: format_duration_def Let_def str_int_def)
qed

lemma search_youtube_found:
  assumes "search_entries E (''ytsearch:'' @ q) = Inr (info # rest)"
    and "title info = Some t" and "webpage_url info = Some u"
  shows "search_youtube E q w =
     (Inr (Some \<lparr>res_title = t,
                  res_duration = (case duration info of None \<Rightarrow> 0 | Some d \<Rightarrow> d),
                  res_url = u,
                  res_thumbnail = (case thumbnail info of None \<Rightarrow> [] | Some th \<Rightarrow> th)\<rparr>),
      w\<lparr>trace := trace w @ [SearchCall (''ytsearch:'' @ q)]\<rparr>)"
  using assms by (simp add: search_youtube_def io_defs)

text \<open>
  C4.  When the search succeeds with a first entry whose duration \<open>d\<close> (0 when the entry
  has none) is not negative, the summary that \<open>play\<close> sends shows the decimal digits of
  \<open>d div 60\<close>, a colon, and exactly two digits for \<open>d mod 60\<close>: its tens and its units.  A
  duration of 125 is shown as \<open>2:05\<close> and a duration of 0 as \<open>0:00\<close>.
\<close>

theorem duration_display:
  assumes "args \<noteq> []" and "join '' '' args = q" and "q \<noteq> []"
    and "search_entries E (''ytsearch:'' @ q) = Inr (info # rest)"
    and "title info = Some t" and "webpage_url info = Some u"
    and "d = (case duration info of None \<Rightarrow> 0 | Some x \<Rightarrow> x)" and "0 \<le> d"
    and "raises E (ReplyText (searching_msg_text q)) = None"
    and "raises E DeleteMessage = None"
  shows "trace (snd (play E args w)) =
           trace w @ [ReplyText (searching_msg_text q), SearchCall (''ytsearch:'' @ q), DeleteMessage,
             ReplyMarkup (found_msg t (str_nat (nat (d div 60)) @ '':'' @
                 [digit_char (nat (d mod 60) div 10), digit_char (nat (d mod 60) mod 10)]))
               (keyboard_for u)]
         \<and> format_duration 125 = ''2:05'' \<and> format_duration 0 = ''0:00''"
proof -
  have a: "format_duration 125 = ''2:05''"
    by (simp add: format_duration_def Let_def str_int_def format_02d_def zfill_def str_nat.simps digit_char_def)
  have b: "format_duration 0 = ''0:00''"
    by (simp add: format_duration_def Let_def str_int_def format_02d_def zfill_def str_nat.simps digit_char_def)
  have c: "format_duration d = str_nat (nat (d div 60)) @ '':'' @
     [digit_char (nat (d mod 60) div 10), digit_char (nat (d mod 60) mod 10)]"
    using \<open>0 \<le> d\<close> by (rule format_duration_nonneg)
  have "trace (snd (play E args w)) =
           trace w @ [ReplyText (searching_msg_text q), SearchCall (''ytsearch:'' @ q), DeleteMessage,
             ReplyMarkup (found_msg t (format_duration d)) (keyboard_for u)]"
    using assms(1-3,7,9,10) search_youtube_found [OF assms(4-6)]
    by (simp add: play_def Let_def bind_def call_def emit_def return_def raise_def split: option.splits)
  with a b c show ?thesis by simp
qed

theorem duration_display_witness:
  "[''imagine'', ''dragons'', ''believer''] \<noteq> [] \<and>
   join '' '' [''imagine'', ''dragons'', ''believer''] = ''imagine dragons believer'' \<and>
   ''imagine dragons believer'' \<noteq> [] \<and>
   search_entries env_ok (''ytsearch:'' @ ''imagine dragons believer'') = Inr (believer # []) \<and>
   title believer = Some ''Believer'' \<and> webpage_url believer = Some ''https://youtu.be/x'' \<and>
   (204::int) = (case duration believer of None \<Rightarrow> 0 | Some x \<Rightarrow> x) \<and> (0::int) \<le> 204 \<and>
   raises env_ok (ReplyText (searching_msg_text ''imagine dragons believer'')) = None \<and>
   raises env_ok DeleteMessage = None \<and>
   trace (snd (play env_ok [''imagine'', ''dragons'', ''believer''] world0)) =
     [ReplyText (searching_msg_text ''imagine dragons believer''),
      SearchCall ''ytsearch:imagine dragons believer'', DeleteMessage,
      ReplyMarkup (found_msg ''Believer'' ''3:24'') (keyboard_for ''https://youtu.be/x'')]"
proof -
  have pre: "search_entries env_ok (''ytsearch:'' @ ''imagine dragons believer'') = Inr (believer # [])"
    "title believer = Some ''Believer''" "webpage_url believer = Some ''https://youtu.be/x''"
    "(204::int) = (case duration believer of None \<Rightarrow> 0 | Some x \<Rightarrow> x)"
    "raises env_ok (ReplyText (searching_msg_text ''imagine dragons believer'')) = None"
    "raises env_ok DeleteMessage = None"
    by (simp_all add: env_ok_def believer_def)
  have digits: "str_nat (nat (204 div 60)) = ''3''"
    "digit_char (nat (204 mod 60) div 10) = CHR ''2''"
    "digit_char (nat (204 mod 60) mod 10) = CHR ''4''"
    by (simp_all add: str_nat.simps digit_char_def)
  show ?thesis
    using duration_display [of "[''imagine'', ''dragons'', ''believer'']"
        "''imagine dragons believer''" env_ok believer "[]" "''Believer''"
        "''https://youtu.be/x''" 204 world0] pre digits
    by (simp add: world0_def)
qed

subsection \<open>The download\<close>

text \<open>
  C10.  \<open>download_audio\<close> returns a path only when that path exists in the staging area at
  the moment of return.  Once the staging directory has been made, it never raises: when
  the extraction raises, when the file name cannot be prepared, and when the expected
  \<open>.mp3\<close> file is absent, it returns \<open>None\<close>.
\<close>

theorem download_audio_result:
  "(\<forall>f. fst (download_audio E url w) = Inr (Some f) \<longrightarrow>
        f \<in> files (snd (download_audio E url w))) \<and>
   (raises E (MakeDirs ''downloads'') = None \<longrightarrow> (\<exists>r. fst (download_audio E url w) = Inr r)) \<and>
   (raises E (MakeDirs ''downloads'') = None \<and>
      fst (download_extract E url (insert ''downloads'' (files w))) = Inl e
      \<longrightarrow> fst (download_audio E url w) = Inr None) \<and>
   (raises E (MakeDirs ''downloads'') = None \<and>
      download_extract E url (insert ''downloads'' (files w)) = (Inr info, fs') \<and>
      prepare_filename E info = Inl e
      \<longrightarrow> fst (download_audio E url w) = Inr None) \<and>
   (raises E (MakeDirs ''downloads'') = None \<and>
      download_extract E url (insert ''downloads'' (files w)) = (Inr info, fs') \<and>
      prepare_filename E info = Inr name \<and>
      rsplit1_head (CHR ''.'') name @ ''.mp3'' \<notin> fs'
      \<longrightarrow> fst (download_audio E url w) = Inr None)"
  by (auto simp add: download_audio_def io_defs Let_def
      split: option.splits sum.splits prod.splits if_splits)

theorem download_audio_result_witness:
  "raises env_ok (MakeDirs ''downloads'') = None \<and>
   fst (download_audio env_ok ''https://youtu.be/x'' world0) = Inr (Some ''downloads/Believer.mp3'') \<and>
   ''downloads/Believer.mp3'' \<in> files (snd (download_audio env_ok ''https://youtu.be/x'' world0)) \<and>
   raises env_partial (MakeDirs ''downloads'') = None \<and>
   fst (download_extract env_partial ''https://youtu.be/x'' (insert ''downloads'' (files world0)))
     = Inl (Exception ''DownloadError'') \<and>
   fst (download_audio env_partial ''https://youtu.be/x'' world0) = Inr None \<and>
   raises env_noname (MakeDirs ''downloads'') = None \<and>
   download_extract env_noname ''https://youtu.be/x'' (insert ''downloads'' (files world0))
     = (Inr believer, {''downloads/Believer.mp3'', ''downloads''}) \<and>
   prepare_filename env_noname believer = Inl (Exception ''KeyError'') \<and>
   fst (download_audio env_noname ''https://youtu.be/x'' world0) = Inr None \<and>
   raises env_absent (MakeDirs ''downloads'') = None \<and>
   download_extract env_absent ''https://youtu.be/x'' (insert ''downloads'' (files world0))
     = (Inr believer, {''downloads''}) \<and>
   prepare_filename env_absent believer = Inr ''downloads/Believer.webm'' \<and>
   rsplit1_head (CHR ''.'') ''downloads/Believer.webm'' @ ''.mp3'' \<notin> {''downloads''} \<and>
   fst (download_audio env_absent ''https://youtu.be/x'' world0) = Inr None"
  using download_audio_result [of env_ok "''https://youtu.be/x''" world0]
    download_audio_result [of env_partial "''https://youtu.be/x''" world0 "Exception ''DownloadError''"]
    download_audio_result [of env_noname "''https://youtu.be/x''" world0 "Exception ''KeyError''" believer
       "{''downloads/Believer.mp3'', ''downloads''}"]
    download_audio_result [of env_absent "''https://youtu.be/x''" world0 _ believer
       "{''downloads''}" "''downloads/Believer.webm''"]
  by (simp add: env_ok_def env_partial_def env_noname_def env_absent_def world0_def
      download_audio_def io_defs rsplit1_head_def Let_def)

subsection \<open>Exceptions in the choice handler\<close>

text \<open>
  C5, as amended.  An exception leaves \<open>button_callback\<close> only when it is raised by the
  acknowledgement, by the cancellation edit, by the edit to the downloading notice, or by
  the edit to the generic failure notice inside the exception clause.  Every exception
  raised inside the \<open>try\<close> block (download, opening, sending, deleting, the closing edit) is
  caught: it is logged and the message is edited to the generic failure notice.
\<close>

theorem button_callback_catches:
  "(fst (button_callback E data w) = Inl e \<longrightarrow>
      raises E Answer = Some e \<or>
      (data = ''cancel'' \<and> raises E (EditMessageText cancelled_msg) = Some e) \<or>
      (data \<noteq> ''cancel'' \<and> startswith data ''download_'' \<and>
         (raises E (EditMessageText downloading_msg) = Some e \<or>
          raises E (EditMessageText error_msg) = Some e))) \<and>
   (raises E Answer = None \<and> data \<noteq> ''cancel'' \<and> startswith data ''download_'' \<and>
    raises E (EditMessageText downloading_msg) = None \<and>
    download_and_send E (payload_url data)
      (w\<lparr>trace := trace w @ [Answer, EditMessageText downloading_msg]\<rparr>) = (Inl e', w2)
    \<longrightarrow> button_callback E data w =
          ((case raises E (EditMessageText error_msg) of None \<Rightarrow> Inr () | Some x \<Rightarrow> Inl x),
           w2\<lparr>trace := trace w2 @
              [LogError (''Download error: '' @ str_exn e'), EditMessageText error_msg]\<rparr>))"
proof (intro conjI impI)
  assume "fst (button_callback E data w) = Inl e"
  then show "raises E Answer = Some e \<or>
      (data = ''cancel'' \<and> raises E (EditMessageText cancelled_msg) = Some e) \<or>
      (data \<noteq> ''cancel'' \<and> startswith data ''download_'' \<and>
         (raises E (EditMessageText downloading_msg) = Some e \<or>
          raises E (EditMessageText error_msg) = Some e))"
    by (auto simp add: button_callback_def return_def raise_def bind_def try_except_def emit_def
        call_def logger_error_def Let_def split: option.splits sum.splits prod.splits if_splits)
next
  assume "raises E Answer = None \<and> data \<noteq> ''cancel'' \<and> startswith data ''download_'' \<and>
    raises E (EditMessageText downloading_msg) = None \<and>
    download_and_send E (payload_url data)
      (w\<lparr>trace := trace w @ [Answer, EditMessageText downloading_msg]\<rparr>) = (Inl e', w2)"
  then show "button_callback E data w =
          ((case raises E (EditMessageText error_msg) of None \<Rightarrow> Inr () | Some x \<Rightarrow> Inl x),
           w2\<lparr>trace := trace w2 @
              [LogError (''Download error: '' @ str_exn e'), EditMessageText error_msg]\<rparr>)"
    by (simp add: button_callback_def return_def raise_def bind_def try_except_def emit_def
        call_def logger_error_def Let_def split: option.splits)
qed

theorem button_callback_catches_witness:
  "fst (button_callback env_ack_fails ''cancel'' world0) = Inl (Exception ''NetworkError'') \<and>
   raises env_ack_fails Answer = Some (Exception ''NetworkError'') \<and>
   raises env_send_fails Answer = None \<and> ''download_https://youtu.be/x'' \<noteq> ''cancel'' \<and>
   startswith ''download_https://youtu.be/x'' ''download_'' \<and>
   raises env_send_fails (EditMessageText downloading_msg) = None \<and>
   fst (download_and_send env_send_fails (payload_url ''download_https://youtu.be/x'')
      (world0\<lparr>trace := trace world0 @ [Answer, EditMessageText downloading_msg]\<rparr>))
     = Inl (Exception ''NetworkError'') \<and>
   fst (button_callback env_send_fails ''download_https://youtu.be/x'' world0) = Inr () \<and>
   trace (snd (button_callback env_send_fails ''download_https://youtu.be/x'' world0)) =
     [Answer, EditMessageText downloading_msg, MakeDirs ''downloads'',
      DownloadCall ''https://youtu.be/x'', OpenFile ''downloads/Believer.mp3'',
      SendAudio ''downloads/Believer.mp3'' ''Believer'' ''Music Bot'',
      LogError ''Download error: NetworkError'', EditMessageText error_msg]"
proof -
  have ds: "download_and_send env_send_fails (payload_url ''download_https://youtu.be/x'')
      (world0\<lparr>trace := trace world0 @ [Answer, EditMessageText downloading_msg]\<rparr>) =
      (Inl (Exception ''NetworkError''),
       \<lparr>trace = [Answer, EditMessageText downloading_msg, MakeDirs ''downloads'',
          DownloadCall ''https://youtu.be/x'', OpenFile ''downloads/Believer.mp3'',
          SendAudio ''downloads/Believer.mp3'' ''Believer'' ''Music Bot''],
        files = {''downloads/Believer.mp3'', ''downloads''}\<rparr>)"
    by (simp add: download_and_send_def download_audio_def io_defs env_send_fails_def env_ok_def
        world0_def payload_url_def startswith_def rsplit1_head_def audio_title_def basename_def
        performer_def Let_def)
  have ack: "fst (button_callback env_ack_fails ''cancel'' world0) = Inl (Exception ''NetworkError'')"
    by (simp add: button_callback_def io_defs env_ack_fails_def env_ok_def world0_def)
  have pre: "raises env_send_fails Answer = None"
    "raises env_send_fails (EditMessageText downloading_msg) = None"
    "raises env_send_fails (EditMessageText error_msg) = None"
    "startswith ''download_https://youtu.be/x'' ''download_''"
    "raises env_ack_fails Answer = Some (Exception ''NetworkError'')"
    by (simp_all add: env_send_fails_def env_ok_def env_ack_fails_def startswith_def)
  show ?thesis
    using button_callback_catches [of env_ack_fails "''cancel''" world0 "Exception ''NetworkError''"]
      button_callback_catches [of env_send_fails "''download_https://youtu.be/x''" world0 _
        "Exception ''NetworkError''"
        "\<lparr>trace = [Answer, EditMessageText downloading_msg, MakeDirs ''downloads'',
          DownloadCall ''https://youtu.be/x'', OpenFile ''downloads/Believer.mp3'',
          SendAudio ''downloads/Believer.mp3'' ''Believer'' ''Music Bot''],
        files = {''downloads/Believer.mp3'', ''downloads''}\<rparr>"]
      ds ack pre
    by (simp add: str_exn_def)
qed

text \<open>
  C5 as stated fails at the first statement of the handler: the acknowledgement is outside
  the \<open>try\<close> block, and an exception it raises leaves the handler.
\<close>

theorem ack_exception_escapes:
  "fst (button_callback env_ack_fails ''download_https://youtu.be/x'' world0)
     = Inl (Exception ''NetworkError'')"
  by (simp add: button_callback_def io_defs env_ack_fails_def env_ok_def world0_def)

subsection \<open>A failed download\<close>

lemma download_audio_trace:
  "\<exists>evs. trace (snd (download_audio E url w)) = trace w @ evs \<and>
     set evs \<subseteq> {MakeDirs ''downloads'', DownloadCall url} \<union> range LogError"
  by (auto simp add: download_audio_def io_defs Let_def
      split: option.splits sum.splits prod.splits if_splits)

text \<open>
  C7, as amended.  When the download returns no file, the handler makes no call that
  deletes a file, its last call edits the message to the failure notice (or, when that
  edit raises, to the generic failure notice), and the staging area is left exactly as the
  download left it.
\<close>

theorem download_failure_no_delete:
  assumes "raises E Answer = None" and "data \<noteq> ''cancel''" and "startswith data ''download_''"
    and "raises E (EditMessageText downloading_msg) = None"
    and "download_audio E (payload_url data)
           (w\<lparr>trace := trace w @ [Answer, EditMessageText downloading_msg]\<rparr>) = (Inr None, w2)"
  shows "files (snd (button_callback E data w)) = files w2 \<and>
         (\<exists>evs. trace (snd (button_callback E data w)) = trace w @ evs \<and>
                (\<forall>p. RemoveFile p \<notin> set evs) \<and>
                (last evs = EditMessageText failed_msg \<or> last evs = EditMessageText error_msg))"
proof -
  let ?w1 = "w\<lparr>trace := trace w @ [Answer, EditMessageText downloading_msg]\<rparr>"
  let ?tl = "(case raises E (EditMessageText failed_msg) of
               None \<Rightarrow> [EditMessageText failed_msg]
             | Some e \<Rightarrow> [EditMessageText failed_msg,
                          LogError (''Download error: '' @ str_exn e),
                          EditMessageText error_msg])"
  from download_audio_trace [of E "payload_url data" ?w1] assms(5)
  obtain evs where evs: "trace w2 = trace w @ [Answer, EditMessageText downloading_msg] @ evs"
    and sub: "set evs \<subseteq> {MakeDirs ''downloads'', DownloadCall (payload_url data)} \<union> range LogError"
    by auto
  have run: "snd (button_callback E data w) = w2\<lparr>trace := trace w2 @ ?tl\<rparr>"
    using assms
    by (simp add: button_callback_def download_and_send_def return_def raise_def bind_def
        try_except_def emit_def call_def logger_error_def Let_def split: option.splits)
  have "trace (snd (button_callback E data w)) =
          trace w @ ([Answer, EditMessageText downloading_msg] @ evs @ ?tl)"
    using run evs by simp
  moreover have "\<forall>p. RemoveFile p \<notin> set ([Answer, EditMessageText downloading_msg] @ evs @ ?tl)"
    using sub by (auto split: option.splits)
  moreover have "last ([Answer, EditMessageText downloading_msg] @ evs @ ?tl) = EditMessageText failed_msg
     \<or> last ([Answer, EditMessageText downloading_msg] @ evs @ ?tl) = EditMessageText error_msg"
    by (simp split: option.splits)
  moreover have "files (snd (button_callback E data w)) = files w2"
    using run by simp
  ultimately show ?thesis by blast
qed

theorem download_failure_no_delete_witness:
  "raises env_partial Answer = None \<and> ''download_https://youtu.be/x'' \<noteq> ''cancel'' \<and>
   startswith ''download_https://youtu.be/x'' ''download_'' \<and>
   raises env_partial (EditMessageText downloading_msg) = None \<and>
   download_audio env_partial (payload_url ''download_https://youtu.be/x'')
     (world0\<lparr>trace := trace world0 @ [Answer, EditMessageText downloading_msg]\<rparr>) =
     (Inr None,
      \<lparr>trace = [Answer, EditMessageText downloading_msg, MakeDirs ''downloads'',
          DownloadCall ''https://youtu.be/x'', LogError ''Download error: DownloadError''],
       files = {''downloads/Believer.webm.part'', ''downloads''}\<rparr>) \<and>
   files (snd (button_callback env_partial ''download_https://youtu.be/x'' world0)) =
     {''downloads/Believer.webm.part'', ''downloads''}"
proof -
  have da: "download_audio env_partial (payload_url ''download_https://youtu.be/x'')
     (world0\<lparr>trace := trace world0 @ [Answer, EditMessageText downloading_msg]\<rparr>) =
     (Inr None,
      \<lparr>trace = [Answer, EditMessageText downloading_msg, MakeDirs ''downloads'',
          DownloadCall ''https://youtu.be/x'', LogError ''Download error: DownloadError''],
       files = {''downloads/Believer.webm.part'', ''downloads''}\<rparr>)"
    by (simp add: download_audio_def io_defs env_partial_def env_ok_def world0_def payload_url_def
        startswith_def str_exn_def Let_def)
  have pre: "raises env_partial Answer = None"
    "raises env_partial (EditMessageText downloading_msg) = None"
    "startswith ''download_https://youtu.be/x'' ''download_''"
    "''download_https://youtu.be/x'' \<noteq> ''cancel''"
    by (simp_all add: env_partial_def env_ok_def startswith_def)
  show ?thesis
    using download_failure_no_delete [OF pre(1) pre(4) pre(3) pre(2) da] da pre
    by simp
qed

text \<open>
  C7 as stated fails where the extraction raises after it has written a partial file: the
  download returns no file, the handler deletes nothing, and the partial file stays.
\<close>

theorem partial_file_left_behind:
  "fst (download_audio env_partial ''https://youtu.be/x''
          (world0\<lparr>trace := [Answer, EditMessageText downloading_msg]\<rparr>)) = Inr None \<and>
   ''downloads/Believer.webm.part'' \<in>
     files (snd (button_callback env_partial ''download_https://youtu.be/x'' world0))"
  by (simp add: button_callback_def download_and_send_def download_audio_def io_defs
      env_partial_def env_ok_def world0_def payload_url_def startswith_def str_exn_def Let_def)

subsection \<open>Cleaning up after sending\<close>

lemma send_raises_keeps_file:
  assumes "raises E Answer = None" and "data \<noteq> ''cancel''" and "startswith data ''download_''"
    and "raises E (EditMessageText downloading_msg) = None"
    and "download_audio E (payload_url data)
           (w\<lparr>trace := trace w @ [Answer, EditMessageText downloading_msg]\<rparr>) = (Inr (Some f), w2)"
    and "f \<noteq> []" and "f \<in> files w2" and "raises E (OpenFile f) = None"
    and "raises E (SendAudio f (audio_title f) performer) = Some e"
  shows "snd (button_callback E data w) =
           w2\<lparr>trace := trace w2 @ [OpenFile f, SendAudio f (audio_title f) performer,
                  LogError (''Download error: '' @ str_exn e), EditMessageText error_msg]\<rparr>"
  using assms
  by (simp add: button_callback_def download_and_send_def return_def raise_def bind_def
      try_except_def emit_def call_def logger_error_def open_rb_def Let_def split: option.splits)

lemma send_returns_removes_file:
  assumes "raises E Answer = None" and "data \<noteq> ''cancel''" and "startswith data ''download_''"
    and "raises E (EditMessageText downloading_msg) = None"
    and "download_audio E (payload_url data)
           (w\<lparr>trace := trace w @ [Answer, EditMessageText downloading_msg]\<rparr>) = (Inr (Some f), w2)"
    and "f \<noteq> []" and "f \<in> files w2" and "raises E (OpenFile f) = None"
    and "raises E (SendAudio f (audio_title f) performer) = None"
    and "raises E (RemoveFile f) = None"
  shows "snd (button_callback E data w) =
           w2\<lparr>trace := trace w2 @ [OpenFile f, SendAudio f (audio_title f) performer,
                  RemoveFile f, EditMessageText sent_msg] @
                  (case raises E (EditMessageText sent_msg) of None \<Rightarrow> []
                   | Some e \<Rightarrow> [LogError (''Download error: '' @ str_exn e), EditMessageText error_msg]),
                files := files w2 - {f}\<rparr>"
  using assms
  by (simp add: button_callback_def download_and_send_def return_def raise_def bind_def
      try_except_def emit_def call_def logger_error_def open_rb_def os_remove_def Let_def
      split: option.splits)

text \<open>
  C1.  The claim asks for the staged file to be deleted whether or not sending raised.
  Where the download has staged \<open>downloads/Believer.mp3\<close> and sending raises, the handler
  goes from the send call to its exception clause: no call deletes the file, and the file
  is still staged when the handler returns.
\<close>

theorem send_failure_keeps_file:
  "button_callback env_send_fails ''download_https://youtu.be/x'' world0 =
     (Inr (),
      \<lparr>trace = [Answer, EditMessageText downloading_msg, MakeDirs ''downloads'',
          DownloadCall ''https://youtu.be/x'', OpenFile ''downloads/Believer.mp3'',
          SendAudio ''downloads/Believer.mp3'' ''Believer'' ''Music Bot'',
          LogError ''Download error: NetworkError'', EditMessageText error_msg],
       files = {''downloads/Believer.mp3'', ''downloads''}\<rparr>)"
  by (simp add: button_callback_def download_and_send_def download_audio_def io_defs
      env_send_fails_def env_ok_def world0_def payload_url_def startswith_def str_exn_def
      rsplit1_head_def audio_title_def basename_def performer_def Let_def)

subsection \<open>The payload of the download button\<close>

lemma str_replace_absent:
  "old \<noteq> [] \<Longrightarrow> \<not> str_contains s old \<Longrightarrow> str_replace old new s = s"
  by (induction s) auto

lemma str_replace_leading:
  assumes "old \<noteq> []"
  shows "str_replace old new (old @ s) = new @ str_replace old new s"
proof -
  from assms obtain c cs where old: "old = c # cs" by (cases old) auto
  have "startswith (old @ s) old" by (simp add: startswith_def)
  then have "str_replace old new (c # cs @ s) = new @ str_replace old new (drop (length old) (c # cs @ s))"
    using assms old by simp
  moreover have "drop (length old) (c # cs @ s) = s"
    using old by simp
  ultimately show ?thesis using old by simp
qed

lemma payload_roundtrip_clean:
  assumes "\<not> str_contains u ''download_''"
  shows "payload_url (download_payload u) = u"
proof -
  have "str_replace ''download_'' [] (''download_'' @ u) = [] @ str_replace ''download_'' [] u"
    by (rule str_replace_leading) simp
  also have "\<dots> = u"
    using assms by (simp add: str_replace_absent)
  finally show ?thesis
    by (simp only: payload_url_def download_payload_def)
qed

text \<open>
  C2.  The claim asks that decoding the payload gives back the URL it was built from.
  For a URL that itself contains \<open>download_\<close> the decoding removes that occurrence too, and
  the URL handed to the download is not the one the search returned.
\<close>

theorem payload_url_drops_inner_prefix:
  "payload_url (download_payload ''https://www.youtube.com/watch?v=download_ab'')
     = ''https://www.youtube.com/watch?v=ab''"
  by (simp add: payload_url_def download_payload_def startswith_def)

subsection \<open>The title of the sent audio\<close>

lemma mp3_not_straddling:
  assumes "\<not> startswith (c # cs) ''.mp3''"
  shows "\<not> startswith (c # cs @ ''.mp3'') ''.mp3''"
proof (cases "3 \<le> length cs")
  case True
  then have "take 3 (cs @ ''.mp3'') = take 3 cs" by simp
  with assms show ?thesis
    by (simp add: startswith_def)
next
  case False
  then consider "cs = []" | x where "cs = [x]" | x y where "cs = [x, y]"
    by (cases cs; cases "tl cs"; cases "tl (tl cs)") auto
  then show ?thesis
    by cases (auto simp add: startswith_def)
qed

lemma str_replace_suffix_mp3:
  "\<not> str_contains stem ''.mp3'' \<Longrightarrow> str_replace ''.mp3'' [] (stem @ ''.mp3'') = stem"
proof (induction stem)
  case Nil
  show ?case by (simp add: startswith_def)
next
  case (Cons c cs)
  then have a: "\<not> startswith (c # cs) ''.mp3''" and b: "\<not> str_contains cs ''.mp3''"
    by simp_all
  from a have "\<not> startswith (c # cs @ ''.mp3'') ''.mp3''"
    by (rule mp3_not_straddling)
  then show ?case
    using Cons.IH [OF b] by simp
qed

lemma basename_append:
  assumes "CHR ''/'' \<notin> set name"
  shows "basename (dir @ ''/'' @ name) = name"
proof -
  have "takeWhile (\<lambda>c. c \<noteq> CHR ''/'') (rev name @ CHR ''/'' # rev dir) =
          rev name @ takeWhile (\<lambda>c. c \<noteq> CHR ''/'') (CHR ''/'' # rev dir)"
    by (rule takeWhile_append2) (use assms in auto)
  then show ?thesis
    by (simp add: basename_def)
qed

lemma audio_title_clean:
  assumes "CHR ''/'' \<notin> set stem" and "\<not> str_contains stem ''.mp3''"
  shows "audio_title (dir @ ''/'' @ stem @ ''.mp3'') = stem"
proof -
  from assms(1) have "CHR ''/'' \<notin> set (stem @ ''.mp3'')" by simp
  then have "basename (dir @ ''/'' @ stem @ ''.mp3'') = stem @ ''.mp3''"
    by (rule basename_append)
  then show ?thesis
    using str_replace_suffix_mp3 [OF assms(2)] by (simp add: audio_title_def)
qed

text \<open>
  C6.  The claim asks for the title to be the base name with only its trailing extension
  removed.  For the staged file \<open>downloads/Best.mp3 hits.mp3\<close> the title sent is
  \<open>Best hits\<close>: the inner \<open>.mp3\<close> is removed as well.  The performer is \<open>Music Bot\<close>.
\<close>

theorem audio_title_drops_inner_mp3:
  "audio_title ''downloads/Best.mp3 hits.mp3'' = ''Best hits'' \<and>
   button_callback env_dotted ''download_https://youtu.be/x'' world0 =
     (Inr (),
      \<lparr>trace = [Answer, EditMessageText downloading_msg, MakeDirs ''downloads'',
          DownloadCall ''https://youtu.be/x'', OpenFile ''downloads/Best.mp3 hits.mp3'',
          SendAudio ''downloads/Best.mp3 hits.mp3'' ''Best hits'' ''Music Bot'',
          RemoveFile ''downloads/Best.mp3 hits.mp3'', EditMessageText sent_msg],
       files = {''downloads''}\<rparr>)"
  by (simp add: button_callback_def download_and_send_def download_audio_def io_defs
      env_dotted_def env_ok_def world0_def payload_url_def startswith_def str_exn_def
      rsplit1_head_def audio_title_def basename_def performer_def Let_def)

end
